theory Spec2Isabelle
  imports Complex_Main "HOL-Library.Sublist"
begin

section \<open>Values of the JavaScript runtime\<close>

text \<open>
  The two results of \<open>detectMode\<close>: the string literals \<open>'bundled'\<close> and \<open>'legacy'\<close>.
\<close>

datatype mode = Bundled | Legacy

text \<open>
  Exceptions are values. \<open>TypeError\<close> is what the runtime raises on a property read of
  \<open>null\<close> or \<open>undefined\<close> and on a call of something that is not a function;
  \<open>SyntaxError\<close> is what \<open>JSON.parse\<close> raises; \<open>SystemError\<close> stands for everything a
  collaborator (file system, module resolution) raises.
\<close>

datatype exn = TypeError | SyntaxError | SystemError string

text \<open>
  A JavaScript number as far as the code observes it: not-a-number, a finite value or an
  infinity. Negative zero is identified with zero (both are falsy and compare alike).
\<close>

datatype jsnum = NaN | Fin rat | PosInf | NegInf

text \<open>
  The value \<open>JSON.parse\<close> returns. An object is an association list read with
  \<open>map_of\<close>: the first binding of a key is the value of the property. A string is the
  list of its code units, each a \<open>char\<close>; the code compares strings unit by unit with
  an ASCII marker only, so the width of a unit does not matter to it. \<open>undefined\<close> is
  not a JSON value; where the code can meet it (an absent property) the model uses
  \<open>json option\<close> with \<open>None\<close> for \<open>undefined\<close>.
\<close>

datatype json =
    JNull
  | JBool bool
  | JNum jsnum
  | JStr string
  | JArr "json list"
  | JObj "(string \<times> json) list"

text \<open>Truthiness, as the operator \<open>||\<close> and \<open>if\<close> test it.\<close>

fun truthy :: "json option \<Rightarrow> bool" where
  "truthy None = False"
| "truthy (Some JNull) = False"
| "truthy (Some (JBool b)) = b"
| "truthy (Some (JNum NaN)) = False"
| "truthy (Some (JNum (Fin q))) = (q \<noteq> 0)"
| "truthy (Some (JNum PosInf)) = True"
| "truthy (Some (JNum NegInf)) = True"
| "truthy (Some (JStr s)) = (s \<noteq> [])"
| "truthy (Some (JArr xs)) = True"
| "truthy (Some (JObj kvs)) = True"

text \<open>\<open>v || []\<close>: the value itself when it is truthy, a fresh empty array otherwise.\<close>

fun or_empty :: "json option \<Rightarrow> json" where
  "or_empty None = JArr []"
| "or_empty (Some v) = (if truthy (Some v) then v else JArr [])"

text \<open>
  The property key of an array index: \<open>ToString(i)\<close>, the decimal numeral without
  leading zeros (the runtime prints an integer so below \<open>10^21\<close>, and the loop reaches an
  index of an object only when every smaller index is one of its keys).
\<close>

definition digit :: "nat \<Rightarrow> char" where
  "digit d = char_of (48 + d)"

fun show_nat :: "nat \<Rightarrow> string" where
  "show_nat n = (if n < 10 then [digit n] else show_nat (n div 10) @ [digit (n mod 10)])"

declare show_nat.simps [simp del]

text \<open>
  \<open>biomeJson.extends\<close>: a property read. It raises on \<open>null\<close>; a parsed object has the
  property when the key is bound; numbers, booleans, strings and arrays have no property
  of that name (nor have their prototypes).
\<close>

fun get_extends :: "json \<Rightarrow> exn + json option" where
  "get_extends JNull = Inl TypeError"
| "get_extends (JObj kvs) = Inr (map_of kvs ''extends'')"
| "get_extends (JBool b) = Inr None"
| "get_extends (JNum n) = Inr None"
| "get_extends (JStr s) = Inr None"
| "get_extends (JArr xs) = Inr None"

text \<open>
  \<open>extendsArr.length\<close>: the number of elements of an array, the number of code units
  of a string, the property \<open>length\<close> of an object when it has one, \<open>undefined\<close> on a
  number or a boolean.
\<close>

fun get_length :: "json \<Rightarrow> exn + json option" where
  "get_length JNull = Inl TypeError"
| "get_length (JBool b) = Inr None"
| "get_length (JNum n) = Inr None"
| "get_length (JStr s) = Inr (Some (JNum (Fin (of_nat (length s)))))"
| "get_length (JArr xs) = Inr (Some (JNum (Fin (of_nat (length xs)))))"
| "get_length (JObj kvs) = Inr (map_of kvs ''length'')"

text \<open>
  \<open>extendsArr[i]\<close>: an element of an array, the one-unit string at a position of a
  string, the property named by the decimal numeral of \<open>i\<close> of an object;
  \<open>undefined\<close> out of range and on a number or a boolean.
\<close>

fun get_index :: "json \<Rightarrow> nat \<Rightarrow> exn + json option" where
  "get_index JNull i = Inl TypeError"
| "get_index (JBool b) i = Inr None"
| "get_index (JNum n) i = Inr None"
| "get_index (JStr s) i = Inr (if i < length s then Some (JStr [s ! i]) else None)"
| "get_index (JArr xs) i = Inr (if i < length xs then Some (xs ! i) else None)"
| "get_index (JObj kvs) i = Inr (map_of kvs (show_nat i))"

text \<open>
  \<open>String.prototype.indexOf\<close> from position 0: the least position where the needle
  starts, \<open>-1\<close> when there is none.
\<close>

fun indexOf_from :: "nat \<Rightarrow> string \<Rightarrow> string \<Rightarrow> int" where
  "indexOf_from k needle [] = (if needle = [] then int k else - 1)"
| "indexOf_from k needle (c # cs) =
     (if prefix needle (c # cs) then int k else indexOf_from (Suc k) needle cs)"

definition indexOf_str :: "string \<Rightarrow> string \<Rightarrow> int" where
  "indexOf_str s needle = indexOf_from 0 needle s"

text \<open>
  \<open>Array.prototype.indexOf\<close> with a string to search for: the least position of an
  element strictly equal to it (a string of the same code units), \<open>-1\<close> when there is
  none.
\<close>

fun indexOf_elem :: "nat \<Rightarrow> string \<Rightarrow> json list \<Rightarrow> int" where
  "indexOf_elem k needle [] = - 1"
| "indexOf_elem k needle (y # ys) =
     (if y = JStr needle then int k else indexOf_elem (Suc k) needle ys)"

definition indexOf_arr :: "json list \<Rightarrow> string \<Rightarrow> int" where
  "indexOf_arr ys needle = indexOf_elem 0 needle ys"

text \<open>
  \<open>e.indexOf(needle)\<close> on whatever \<open>extendsArr[i]\<close> gave: the method exists on strings
  and arrays only. On \<open>undefined\<close> and \<open>null\<close> the property read raises; on a number,
  a boolean or a parsed object the property is \<open>undefined\<close> or a JSON value, and the
  call of a non-function raises.
\<close>

fun call_indexOf :: "json option \<Rightarrow> string \<Rightarrow> exn + int" where
  "call_indexOf None needle = Inl TypeError"
| "call_indexOf (Some (JStr s)) needle = Inr (indexOf_str s needle)"
| "call_indexOf (Some (JArr ys)) needle = Inr (indexOf_arr ys needle)"
| "call_indexOf (Some JNull) needle = Inl TypeError"
| "call_indexOf (Some (JBool b)) needle = Inl TypeError"
| "call_indexOf (Some (JNum n)) needle = Inl TypeError"
| "call_indexOf (Some (JObj kvs)) needle = Inl TypeError"

text \<open>
  The comparison \<open>i < extendsArr.length\<close> converts its right operand to a number.
  \<open>undefined\<close> becomes not-a-number, \<open>null\<close> and \<open>false\<close> zero, \<open>true\<close> one. The
  conversion of a string (a numeric literal or not) and of an array or object (through
  \<open>ToPrimitive\<close>, which can raise) is the runtime's and is a parameter of the model.
\<close>

fun ToNumber :: "(json \<Rightarrow> exn + jsnum) \<Rightarrow> json option \<Rightarrow> exn + jsnum" where
  "ToNumber conv None = Inr NaN"
| "ToNumber conv (Some JNull) = Inr (Fin 0)"
| "ToNumber conv (Some (JBool b)) = Inr (Fin (if b then 1 else 0))"
| "ToNumber conv (Some (JNum n)) = Inr n"
| "ToNumber conv (Some (JStr s)) = conv (JStr s)"
| "ToNumber conv (Some (JArr xs)) = conv (JArr xs)"
| "ToNumber conv (Some (JObj kvs)) = conv (JObj kvs)"

fun less_num :: "nat \<Rightarrow> jsnum \<Rightarrow> bool" where
  "less_num i NaN = False"
| "less_num i (Fin q) = (of_nat i < q)"
| "less_num i PosInf = True"
| "less_num i NegInf = False"

section \<open>The inspection loop of detectMode\<close>

text \<open>
  The decimal numerals of different indices differ: \<open>read_nat\<close> reads a numeral back.
  This bounds the loop on an object: it has finitely many keys, so finitely many indices
  are bound.
\<close>

definition digit_val :: "char \<Rightarrow> nat" where
  "digit_val c = of_char c - 48"

definition read_nat :: "string \<Rightarrow> nat" where
  "read_nat s = foldl (\<lambda>a c. 10 * a + digit_val c) 0 s"

text \<open>An index is present when \<open>extendsArr[i]\<close> is not \<open>undefined\<close>.\<close>

definition present :: "json \<Rightarrow> nat \<Rightarrow> bool" where
  "present arr i = (\<exists>v. get_index arr i = Inr (Some v))"

text \<open>
  Lines 32 to 36 of \<open>command.ts\<close> (the same text as lines 38 to 42 of the second
  source file):
  \<^verbatim>\<open>for (let i = 0; i < extendsArr.length; i++) {
    if (extendsArr[i].indexOf('tsds-config') >= 0) { return 'bundled'; } }\<close>
  The result is \<open>Inl e\<close> when the loop raises \<open>e\<close>, \<open>Inr (Some Bundled)\<close> when it
  returns from the function, \<open>Inr None\<close> when it runs to its end. The loop continues
  only past an index that is bound, and the bound indices at or after \<open>i\<close> become
  fewer: that is the termination measure.
\<close>

function scan :: "(json \<Rightarrow> exn + jsnum) \<Rightarrow> json \<Rightarrow> nat \<Rightarrow> exn + mode option" where
  "scan conv extendsArr i =
     (case get_length extendsArr of
        Inl e \<Rightarrow> Inl e
      | Inr len \<Rightarrow>
          (case ToNumber conv len of
             Inl e \<Rightarrow> Inl e
           | Inr n \<Rightarrow>
               if less_num i n then
                 (case get_index extendsArr i of
                    Inl e \<Rightarrow> Inl e
                  | Inr entry \<Rightarrow>
                      (case call_indexOf entry ''tsds-config'' of
                         Inl e \<Rightarrow> Inl e
                       | Inr k \<Rightarrow>
                           if k \<ge> 0 then Inr (Some Bundled)
                           else scan conv extendsArr (i + 1)))
               else Inr None))"
  by pat_completeness auto
termination
proof (relation "measure (\<lambda>(conv, arr, i). card {j. i \<le> j \<and> present arr j})")
  show "wf (measure (\<lambda>(conv, arr, i). card {j. i \<le> j \<and> present arr j}))" by simp
next
  fix conv :: "json \<Rightarrow> exn + jsnum" and extendsArr i len n entry and k :: int
  assume ix: "get_index extendsArr i = Inr entry"
    and call: "call_indexOf entry ''tsds-config'' = Inr k"
  have digit_val_digit: "digit_val (digit d) = d" if "d < 10" for d
    using that by (simp add: digit_val_def digit_def)
  have read_show: "read_nat (show_nat m) = m" for m
  proof (induction m rule: show_nat.induct)
    case (1 m)
    show ?case
    proof (cases "m < 10")
      case True
      then show ?thesis by (simp add: show_nat.simps [of m] read_nat_def digit_val_digit)
    next
      case False
      with 1 have "read_nat (show_nat (m div 10)) = m div 10" by simp
      with False show ?thesis
        by (simp add: show_nat.simps [of m] read_nat_def digit_val_digit)
    qed
  qed
  have inj_show_nat: "inj show_nat"
    by (rule inj_on_inverseI [where g = read_nat]) (rule read_show)
  have finite_present: "finite {j. present extendsArr j}"
  proof (cases extendsArr)
    case (JStr s)
    have "{j. present extendsArr j} \<subseteq> {..<length s}"
      by (auto simp: present_def JStr split: if_splits)
    then show ?thesis by (rule finite_subset) simp
  next
    case (JArr xs)
    have "{j. present extendsArr j} \<subseteq> {..<length xs}"
      by (auto simp: present_def JArr split: if_splits)
    then show ?thesis by (rule finite_subset) simp
  next
    case (JObj kvs)
    have "{j. present extendsArr j} \<subseteq> show_nat -` (fst ` set kvs)"
      by (force simp: present_def JObj dest!: map_of_SomeD)
    moreover have "finite (show_nat -` (fst ` set kvs))"
      by (rule finite_vimageI [OF _ inj_show_nat]) simp
    ultimately show ?thesis by (rule finite_subset)
  qed (simp_all add: present_def)
  from call obtain v where "entry = Some v" by (cases entry) auto
  with ix have here: "present extendsArr i" by (simp add: present_def)
  have fin: "finite {j. i \<le> j \<and> present extendsArr j}"
    by (rule finite_subset [OF _ finite_present]) auto
  have "i \<in> {j. i \<le> j \<and> present extendsArr j}"
    and "i \<notin> {j. i + 1 \<le> j \<and> present extendsArr j}"
    using here by simp_all
  then have "{j. i + 1 \<le> j \<and> present extendsArr j} \<noteq> {j. i \<le> j \<and> present extendsArr j}"
    by blast
  moreover have "{j. i + 1 \<le> j \<and> present extendsArr j} \<subseteq> {j. i \<le> j \<and> present extendsArr j}"
    by auto
  ultimately have "{j. i + 1 \<le> j \<and> present extendsArr j} \<subset> {j. i \<le> j \<and> present extendsArr j}"
    by (rule psubsetI [rotated])
  then have "card {j. i + 1 \<le> j \<and> present extendsArr j} < card {j. i \<le> j \<and> present extendsArr j}"
    by (rule psubset_card_mono [OF fin])
  then show "((conv, extendsArr, i + 1), (conv, extendsArr, i))
      \<in> measure (\<lambda>(conv, arr, i). card {j. i \<le> j \<and> present arr j})"
    by simp
qed

declare scan.simps [simp del]

section \<open>The environment of a call\<close>

text \<open>
  What \<open>getopts(args, { alias: { 'dry-run': 'd' }, boolean: ['dry-run', 'legacy'] })\<close>
  returns, as far as the code reads it: the two boolean options.
\<close>

record opts =
  dry_run :: bool
  legacy :: bool

text \<open>
  Everything the code reads from outside: the process (\<open>process.platform\<close>,
  \<open>process.env.OSTYPE\<close> which may be unset, \<open>process.arch\<close>, \<open>process.cwd()\<close>), the
  file system (\<open>path.join\<close>, \<open>fs.existsSync\<close>, \<open>fs.readFileSync\<close> with the encoding
  \<open>'utf8'\<close>), \<open>JSON.parse\<close>, the runtime's conversion to a number of strings, arrays and
  objects, the option parser with the configuration above, and the two resolvers
  (\<open>resolveBin\<close> of the package resolve-bin-sync, \<open>require.resolve\<close>). A collaborator
  that can raise returns a sum with the exception on the left. None of them is fixed:
  every theorem holds for all of them.
\<close>

record env =
  platform :: string
  OSTYPE :: "string option"
  arch :: string
  process_cwd :: string
  path_join :: "string \<Rightarrow> string \<Rightarrow> string"
  existsSync :: "string \<Rightarrow> bool"
  readFileSync :: "string \<Rightarrow> exn + string"
  JSON_parse :: "string \<Rightarrow> exn + json"
  to_number :: "json \<Rightarrow> exn + jsnum"
  getopts :: "string list \<Rightarrow> opts"
  resolveBin :: "string \<Rightarrow> string \<Rightarrow> exn + string"
  require_resolve :: "string \<Rightarrow> exn + string"

text \<open>
  \<open>CommandOptions\<close>: the field \<open>cwd\<close> (absent is \<open>None\<close>) and whatever else the
  caller put in the object.
\<close>

record 'x CommandOptions =
  options_cwd :: "string option"
  options_rest :: 'x

text \<open>
  What a call does to the outside, in order: a line on the console, a call of the
  completion callback with no argument, a call of the spawn collaborator
  \<open>spawn(command, args, options, callback)\<close>.
\<close>

datatype ('x, 'cb) effect =
    Log string
  | Call 'cb
  | Spawn string "string list" "'x CommandOptions" 'cb

datatype completion = Returned | Threw exn

text \<open>\<open>try { body } catch (_err) { handler }\<close>: the handler runs when the body raises.\<close>

definition try_catch :: "exn + 'a \<Rightarrow> (exn \<Rightarrow> exn + 'a) \<Rightarrow> exn + 'a" where
  "try_catch body handler = (case body of Inl e \<Rightarrow> handler e | Inr v \<Rightarrow> Inr v)"

text \<open>
  \<open>/^(msys|cygwin)$/.test(x)\<close>: the pattern is anchored at both ends and has no flag,
  so it matches the two words only; an unset variable is tested as the string
  \<open>undefined\<close>, which does not match.
\<close>

fun test_msys_cygwin :: "string option \<Rightarrow> bool" where
  "test_msys_cygwin None = False"
| "test_msys_cygwin (Some s) = (s = ''msys'' \<or> s = ''cygwin'')"

text \<open>
  The last loop of the dispatcher (the same text in both source files):
  \<^verbatim>\<open>for (let i = 0; i < args.length; i++) {
    if (args[i] !== '--legacy' && args[i] !== '--dry-run' && args[i] !== '-d') {
      spawnArgs.push(args[i]); } }\<close>
  The first argument is \<open>spawnArgs\<close> so far, the second what is left of \<open>args\<close>.
\<close>

fun push_args :: "string list \<Rightarrow> string list \<Rightarrow> string list" where
  "push_args spawnArgs [] = spawnArgs"
| "push_args spawnArgs (a # args) =
     push_args
       (if a \<noteq> ''--legacy'' \<and> a \<noteq> ''--dry-run'' \<and> a \<noteq> ''-d'' then spawnArgs @ [a] else spawnArgs)
       args"

section \<open>The dispatcher of command.ts\<close>

text \<open>
  \<open>isWindows\<close> of \<open>command.ts\<close>:
  \<^verbatim>\<open>process.platform === 'win32' || /^(msys|cygwin)$/.test(process.env.OSTYPE)\<close>
\<close>

definition isWindows :: "env \<Rightarrow> bool" where
  "isWindows env = (platform env = ''win32'' \<or> test_msys_cygwin (OSTYPE env))"

text \<open>
  \<open>detectMode\<close>, lines 20 to 42 of \<open>command.ts\<close>. \<open>detectMode_try\<close> is the block
  under \<open>try\<close>: the read of the file, \<open>JSON.parse\<close>, the read of \<open>extends\<close> and the
  loop. The handler is empty, so a raised exception falls through to \<open>return 'legacy'\<close>
  as the end of the loop does.
\<close>

definition detectMode_try :: "env \<Rightarrow> string \<Rightarrow> exn + mode option" where
  "detectMode_try env biomeJsonPath =
     (case readFileSync env biomeJsonPath of
        Inl e \<Rightarrow> Inl e
      | Inr content \<Rightarrow>
          (case JSON_parse env content of
             Inl e \<Rightarrow> Inl e
           | Inr biomeJson \<Rightarrow>
               (case get_extends biomeJson of
                  Inl e \<Rightarrow> Inl e
                | Inr ext \<Rightarrow> scan (to_number env) (or_empty ext) 0)))"

definition detectMode :: "env \<Rightarrow> string \<Rightarrow> exn + mode" where
  "detectMode env cwd =
     (let biomeJsonPath = path_join env cwd ''biome.json'' in
      if \<not> existsSync env biomeJsonPath then Inr Bundled
      else
        (case try_catch (detectMode_try env biomeJsonPath) (\<lambda>err. Inr None) of
           Inl e \<Rightarrow> Inl e
         | Inr (Some m) \<Rightarrow> Inr m
         | Inr None \<Rightarrow> Inr Legacy))"

text \<open>\<open>resolveBiomeBin\<close>, lines 47 to 49: no handler, so what the resolver raises is raised.\<close>

definition resolveBiomeBin :: "env \<Rightarrow> exn + string" where
  "resolveBiomeBin env = resolveBin env ''@biomejs/biome'' ''biome''"

text \<open>\<open>resolveDefaultConfig\<close>, lines 54 to 60: \<open>None\<close> is the \<open>null\<close> of the handler.\<close>

definition resolveDefaultConfig :: "env \<Rightarrow> exn + string option" where
  "resolveDefaultConfig env =
     try_catch
       (case require_resolve env ''tsds-config/biome.json'' of
          Inl e \<Rightarrow> Inl e
        | Inr p \<Rightarrow> Inr (Some p))
       (\<lambda>err. Inr None)"

text \<open>
  \<open>run\<close>, lines 62 to 113 of \<open>command.ts\<close>. The result is the list of effects in the order
  they happen and how the call ends.
\<close>

definition run ::
  "env \<Rightarrow> string list \<Rightarrow> 'x CommandOptions \<Rightarrow> 'cb \<Rightarrow> ('x, 'cb) effect list \<times> completion" where
  "run env args options callback =
     (let cwd = (case options_cwd options of
                   Some c \<Rightarrow> if c \<noteq> [] then c else process_cwd env
                 | None \<Rightarrow> process_cwd env);
          opts = getopts env args
      in
        if isWindows env \<and> arch env \<notin> set [''x64'', ''arm64''] then
          ([Call callback], Returned)
        else if dry_run opts then
          ([Log ''Dry-run: would format code with biome'', Call callback], Returned)
        else if legacy opts then
          ([Log ''[tsds-biome] Using legacy mode (npm run format)'',
            Spawn ''npm'' [''run'', ''format''] (options\<lparr>options_cwd := Some cwd\<rparr>) callback],
           Returned)
        else
          (case detectMode env cwd of
             Inl e \<Rightarrow> ([], Threw e)
           | Inr mode \<Rightarrow>
               if mode = Legacy then
                 ([Log ''[tsds-biome] Using legacy mode (npm run format)'',
                   Log ''[tsds-biome] To migrate: extend tsds-config/biome.json in your biome.json'',
                   Spawn ''npm'' [''run'', ''format''] (options\<lparr>options_cwd := Some cwd\<rparr>) callback],
                  Returned)
               else
                 (case resolveBiomeBin env of
                    Inl e \<Rightarrow> ([], Threw e)
                  | Inr biomeBin \<Rightarrow>
                      (let biomeJsonPath = path_join env cwd ''biome.json'';
                           spawnArgs = [''check'', ''--write'', ''--unsafe'']
                       in
                         case
                           (if \<not> existsSync env biomeJsonPath then
                              (case resolveDefaultConfig env of
                                 Inl e \<Rightarrow> Inl e
                               | Inr None \<Rightarrow> Inr spawnArgs
                               | Inr (Some defaultConfig) \<Rightarrow>
                                   Inr (if defaultConfig \<noteq> []
                                        then spawnArgs @ [''--config-path'', defaultConfig]
                                        else spawnArgs))
                            else Inr spawnArgs)
                         of
                           Inl e \<Rightarrow> ([], Threw e)
                         | Inr spawnArgs \<Rightarrow>
                             ([Spawn biomeBin (push_args spawnArgs args)
                                 (options\<lparr>options_cwd := Some cwd\<rparr>) callback],
                              Returned)))))"

section \<open>The dispatcher of the second source file\<close>

text \<open>
  The second source file (\<open>part_000\<close>) declares the same functions again; each is
  translated from its own text, with the prefix \<open>w_\<close>.
\<close>

text \<open>
  \<open>isWindows\<close> of the second source file:
  \<^verbatim>\<open>process.platform === 'win32' || /^(msys|cygwin)$/.test(process.env.OSTYPE)\<close>
\<close>

definition w_isWindows :: "env \<Rightarrow> bool" where
  "w_isWindows env = (platform env = ''win32'' \<or> test_msys_cygwin (OSTYPE env))"

text \<open>
  \<open>detectMode\<close>, lines 26 to 48 of the second source file. \<open>w_detectMode_try\<close> is the block
  under \<open>try\<close>: the read of the file, \<open>JSON.parse\<close>, the read of \<open>extends\<close> and the
  loop. The handler is empty, so a raised exception falls through to \<open>return 'legacy'\<close>
  as the end of the loop does.
\<close>

definition w_detectMode_try :: "env \<Rightarrow> string \<Rightarrow> exn + mode option" where
  "w_detectMode_try env biomeJsonPath =
     (case readFileSync env biomeJsonPath of
        Inl e \<Rightarrow> Inl e
      | Inr content \<Rightarrow>
          (case JSON_parse env content of
             Inl e \<Rightarrow> Inl e
           | Inr biomeJson \<Rightarrow>
               (case get_extends biomeJson of
                  Inl e \<Rightarrow> Inl e
                | Inr ext \<Rightarrow> scan (to_number env) (or_empty ext) 0)))"

definition w_detectMode :: "env \<Rightarrow> string \<Rightarrow> exn + mode" where
  "w_detectMode env cwd =
     (let biomeJsonPath = path_join env cwd ''biome.json'' in
      if \<not> existsSync env biomeJsonPath then Inr Bundled
      else
        (case try_catch (w_detectMode_try env biomeJsonPath) (\<lambda>err. Inr None) of
           Inl e \<Rightarrow> Inl e
         | Inr (Some m) \<Rightarrow> Inr m
         | Inr None \<Rightarrow> Inr Legacy))"

text \<open>\<open>resolveBiomeBin\<close>, lines 53 to 55: no handler, so what the resolver raises is raised.\<close>

definition w_resolveBiomeBin :: "env \<Rightarrow> exn + string" where
  "w_resolveBiomeBin env = resolveBin env ''@biomejs/biome'' ''biome''"

text \<open>\<open>resolveDefaultConfig\<close>, lines 60 to 66: \<open>None\<close> is the \<open>null\<close> of the handler.\<close>

definition w_resolveDefaultConfig :: "env \<Rightarrow> exn + string option" where
  "w_resolveDefaultConfig env =
     try_catch
       (case require_resolve env ''tsds-config/biome.json'' of
          Inl e \<Rightarrow> Inl e
        | Inr p \<Rightarrow> Inr (Some p))
       (\<lambda>err. Inr None)"

text \<open>
  \<open>worker\<close>, lines 71 to 122 of the second source file. The result is the list of effects in the order
  they happen and how the call ends.
\<close>

definition worker ::
  "env \<Rightarrow> string list \<Rightarrow> 'x CommandOptions \<Rightarrow> 'cb \<Rightarrow> ('x, 'cb) effect list \<times> completion" where
  "worker env args options callback =
     (let cwd = (case options_cwd options of
                   Some c \<Rightarrow> if c \<noteq> [] then c else process_cwd env
                 | None \<Rightarrow> process_cwd env);
          opts = getopts env args
      in
        if w_isWindows env \<and> arch env \<notin> set [''x64'', ''arm64''] then
          ([Call callback], Returned)
        else if dry_run opts then
          ([Log ''Dry-run: would format code with biome'', Call callback], Returned)
        else if legacy opts then
          ([Log ''[tsds-biome] Using legacy mode (npm run format)'',
            Spawn ''npm'' [''run'', ''format''] (options\<lparr>options_cwd := Some cwd\<rparr>) callback],
           Returned)
        else
          (case w_detectMode env cwd of
             Inl e \<Rightarrow> ([], Threw e)
           | Inr mode \<Rightarrow>
               if mode = Legacy then
                 ([Log ''[tsds-biome] Using legacy mode (npm run format)'',
                   Log ''[tsds-biome] To migrate: extend tsds-config/biome.json in your biome.json'',
                   Spawn ''npm'' [''run'', ''format''] (options\<lparr>options_cwd := Some cwd\<rparr>) callback],
                  Returned)
               else
                 (case w_resolveBiomeBin env of
                    Inl e \<Rightarrow> ([], Threw e)
                  | Inr biomeBin \<Rightarrow>
                      (let biomeJsonPath = path_join env cwd ''biome.json'';
                           spawnArgs = [''check'', ''--write'', ''--unsafe'']
                       in
                         case
                           (if \<not> existsSync env biomeJsonPath then
                              (case w_resolveDefaultConfig env of
                                 Inl e \<Rightarrow> Inl e
                               | Inr None \<Rightarrow> Inr spawnArgs
                               | Inr (Some defaultConfig) \<Rightarrow>
                                   Inr (if defaultConfig \<noteq> []
                                        then spawnArgs @ [''--config-path'', defaultConfig]
                                        else spawnArgs))
                            else Inr spawnArgs)
                         of
                           Inl e \<Rightarrow> ([], Threw e)
                         | Inr spawnArgs \<Rightarrow>
                             ([Spawn biomeBin (push_args spawnArgs args)
                                 (options\<lparr>options_cwd := Some cwd\<rparr>) callback],
                              Returned)))))"

section \<open>Vocabulary of the statements about detectMode\<close>

text \<open>
  The loop on an array, as a recursion on the elements still to be visited. It is a
  tool of the proofs: \<open>scan_array\<close> below shows that the loop computes it.
\<close>

fun scan_list :: "json list \<Rightarrow> exn + mode option" where
  "scan_list [] = Inr None"
| "scan_list (e # es) =
     (case call_indexOf (Some e) ''tsds-config'' of
        Inl x \<Rightarrow> Inl x
      | Inr k \<Rightarrow> if k \<ge> 0 then Inr (Some Bundled) else scan_list es)"

text \<open>The strings of an array all of whose elements are strings.\<close>

fun strings_of :: "json list \<Rightarrow> string list option" where
  "strings_of [] = Some []"
| "strings_of (JStr s # xs) = map_option (Cons s) (strings_of xs)"
| "strings_of (x # xs) = None"

text \<open>
  The \<open>extends\<close> list of a parsed value, where it has one: the empty list when the
  field is absent (also when the value is not an object) or falsy, the strings when it
  is an array of strings. It is \<open>None\<close> for every other value of the field.
\<close>

fun extends_list :: "json \<Rightarrow> string list option" where
  "extends_list (JObj kvs) =
     (case map_of kvs ''extends'' of
        None \<Rightarrow> Some []
      | Some (JArr xs) \<Rightarrow> strings_of xs
      | Some v \<Rightarrow> if truthy (Some v) then None else Some [])"
| "extends_list v = Some []"

text \<open>Values that are neither arrays nor objects.\<close>

fun is_primitive :: "json \<Rightarrow> bool" where
  "is_primitive (JArr xs) = False"
| "is_primitive (JObj kvs) = False"
| "is_primitive v = True"

text \<open>Values with a method \<open>indexOf\<close>: strings and arrays.\<close>

fun has_indexOf :: "json \<Rightarrow> bool" where
  "has_indexOf (JStr s) = True"
| "has_indexOf (JArr xs) = True"
| "has_indexOf v = False"

text \<open>
  An entry matches the marker when \<open>entry.indexOf('tsds-config') >= 0\<close> holds: a string
  that contains \<open>tsds-config\<close> as a substring, or an array that has the string
  \<open>tsds-config\<close> itself as an element. No other value matches.
\<close>

fun matches_marker :: "json \<Rightarrow> bool" where
  "matches_marker (JStr s) = sublist ''tsds-config'' s"
| "matches_marker (JArr ys) = (JStr ''tsds-config'' \<in> set ys)"
| "matches_marker v = False"


section \<open>Vocabulary of the statements about the dispatcher\<close>

text \<open>The first guard of the dispatcher: a Windows platform on another architecture.\<close>

definition unsupported_platform :: "env \<Rightarrow> bool" where
  "unsupported_platform env = (isWindows env \<and> arch env \<notin> set [''x64'', ''arm64''])"

text \<open>\<open>options.cwd || process.cwd()\<close>: the working directory a call uses.\<close>

definition working_directory :: "env \<Rightarrow> 'x CommandOptions \<Rightarrow> string" where
  "working_directory env options =
     (case options_cwd options of
        Some c \<Rightarrow> if c \<noteq> [] then c else process_cwd env
      | None \<Rightarrow> process_cwd env)"

text \<open>The three tokens the last loop leaves out.\<close>

definition control_flags :: "string set" where
  "control_flags = {''--legacy'', ''--dry-run'', ''-d''}"

text \<open>
  What the bundled branch puts between the three fixed tokens and the forwarded
  arguments: the flag and the path when there is no local \<open>biome.json\<close> and
  \<open>require.resolve\<close> returns a non-empty path, nothing otherwise.
\<close>

definition config_path_args :: "env \<Rightarrow> string \<Rightarrow> string list" where
  "config_path_args env cwd =
     (if existsSync env (path_join env cwd ''biome.json'') then []
      else
        (case require_resolve env ''tsds-config/biome.json'' of
           Inl e \<Rightarrow> []
         | Inr p \<Rightarrow> if p = [] then [] else [''--config-path'', p]))"

text \<open>Counting the calls of the spawn collaborator and of the callback among the effects.\<close>

fun is_spawn :: "('x, 'cb) effect \<Rightarrow> bool" where
  "is_spawn (Spawn command args options callback) = True"
| "is_spawn (Call callback) = False"
| "is_spawn (Log line) = False"

fun is_call :: "('x, 'cb) effect \<Rightarrow> bool" where
  "is_call (Call callback) = True"
| "is_call (Spawn command args options callback) = False"
| "is_call (Log line) = False"

definition spawn_count :: "('x, 'cb) effect list \<Rightarrow> nat" where
  "spawn_count effects = length (filter is_spawn effects)"

definition call_count :: "('x, 'cb) effect list \<Rightarrow> nat" where
  "call_count effects = length (filter is_call effects)"

section \<open>Sample environments\<close>

text \<open>
  Concrete environments on which the theorems below are run. They fix the parameters
  only for these runs; no theorem about \<open>detectMode\<close>, \<open>run\<close> or \<open>worker\<close> assumes
  them.
\<close>

text \<open>
  A stand-in for the option parser on lists of plain tokens: a flag counts when its
  token stands before the first \<open>--\<close>, which ends the options.
\<close>

definition sample_getopts :: "string list \<Rightarrow> opts" where
  "sample_getopts args =
     (let flags = takeWhile (\<lambda>a. a \<noteq> ''--'') args
      in \<lparr>dry_run = (''--dry-run'' \<in> set flags \<or> ''-d'' \<in> set flags),
          legacy = (''--legacy'' \<in> set flags)\<rparr>)"

text \<open>
  A Linux machine on x64 with the project at \<open>/proj\<close>, no \<open>biome.json\<close> there, and
  both resolvers succeeding.
\<close>

definition sample_env :: env where
  "sample_env =
     \<lparr>platform = ''linux'', OSTYPE = None, arch = ''x64'', process_cwd = ''/proj'',
      path_join = (\<lambda>a b. a @ ''/'' @ b),
      existsSync = (\<lambda>p. False),
      readFileSync = (\<lambda>p. Inl (SystemError ''ENOENT'')),
      JSON_parse = (\<lambda>s. Inl SyntaxError),
      to_number = (\<lambda>v. Inr NaN),
      getopts = sample_getopts,
      resolveBin = (\<lambda>pkg bin. Inr ''/proj/node_modules/@biomejs/biome/bin/biome''),
      require_resolve = (\<lambda>request. Inr ''/proj/node_modules/tsds-config/biome.json'')\<rparr>"

text \<open>
  The same machine with a file \<open>/proj/biome.json\<close> on which \<open>JSON.parse\<close> gives
  \<open>parsed\<close>.
\<close>

definition config_env :: "exn + json \<Rightarrow> env" where
  "config_env parsed =
     sample_env
       \<lparr>existsSync := (\<lambda>p. p = ''/proj/biome.json''),
        readFileSync := (\<lambda>p. if p = ''/proj/biome.json'' then Inr ''biome.json text'' else Inl (SystemError ''ENOENT'')),
        JSON_parse := (\<lambda>s. parsed)\<rparr>"

text \<open>A 32-bit Windows machine, and the options of a caller working in \<open>/proj\<close>.\<close>

definition windows_ia32_env :: env where
  "windows_ia32_env = sample_env\<lparr>platform := ''win32'', arch := ''ia32''\<rparr>"

definition sample_options :: "unit CommandOptions" where
  "sample_options = \<lparr>options_cwd = Some ''/proj'', options_rest = ()\<rparr>"

text \<open>
  The sample machine where \<open>require.resolve\<close> raises, and the one where the resolver
  of the binary raises.
\<close>

definition unresolved_config_env :: env where
  "unresolved_config_env =
     sample_env\<lparr>require_resolve := (\<lambda>request. Inl (SystemError ''MODULE_NOT_FOUND''))\<rparr>"

definition unresolved_bin_env :: env where
  "unresolved_bin_env =
     sample_env\<lparr>resolveBin := (\<lambda>pkg bin. Inl (SystemError ''MODULE_NOT_FOUND''))\<rparr>"

section \<open>Mode detection\<close>

text \<open>
  C1. For every working directory at which \<open>fs.existsSync\<close> finds nothing under the
  name \<open>biome.json\<close>, \<open>detectMode\<close> returns \<open>'bundled'\<close>, in both source files.
\<close>

theorem detectMode_absent_bundled:
  assumes "\<not> existsSync env (path_join env cwd ''biome.json'')"
  shows "detectMode env cwd = Inr Bundled \<and> w_detectMode env cwd = Inr Bundled"
  using assms by (simp add: detectMode_def w_detectMode_def)

theorem detectMode_absent_bundled_witness:
  "\<not> existsSync sample_env (path_join sample_env ''/proj'' ''biome.json'')
   \<and> detectMode sample_env ''/proj'' = Inr Bundled
   \<and> w_detectMode sample_env ''/proj'' = Inr Bundled"
proof -
  have absent: "\<not> existsSync sample_env (path_join sample_env ''/proj'' ''biome.json'')"
    by (simp add: sample_env_def)
  from detectMode_absent_bundled [OF absent] absent show ?thesis by simp
qed

text \<open>
  C2. When \<open>biome.json\<close> exists and is read but \<open>JSON.parse\<close> raises on its content,
  \<open>detectMode\<close> returns \<open>'legacy'\<close>: the result is a returned value (\<open>Inr\<close>), not a
  raised exception, in both source files.
\<close>

theorem detectMode_parse_failure_legacy:
  assumes "existsSync env (path_join env cwd ''biome.json'')"
    and "readFileSync env (path_join env cwd ''biome.json'') = Inr content"
    and "JSON_parse env content = Inl e"
  shows "detectMode env cwd = Inr Legacy \<and> w_detectMode env cwd = Inr Legacy"
  using assms
  by (simp add: detectMode_def w_detectMode_def detectMode_try_def w_detectMode_try_def
      try_catch_def)

theorem detectMode_parse_failure_legacy_witness:
  "existsSync (config_env (Inl SyntaxError)) (path_join (config_env (Inl SyntaxError)) ''/proj'' ''biome.json'')
   \<and> readFileSync (config_env (Inl SyntaxError)) (path_join (config_env (Inl SyntaxError)) ''/proj'' ''biome.json'')
       = Inr ''biome.json text''
   \<and> JSON_parse (config_env (Inl SyntaxError)) ''biome.json text'' = Inl SyntaxError
   \<and> detectMode (config_env (Inl SyntaxError)) ''/proj'' = Inr Legacy
   \<and> w_detectMode (config_env (Inl SyntaxError)) ''/proj'' = Inr Legacy"
proof -
  let ?env = "config_env (Inl SyntaxError)"
  have a: "existsSync ?env (path_join ?env ''/proj'' ''biome.json'')"
    by (simp add: config_env_def sample_env_def)
  have b: "readFileSync ?env (path_join ?env ''/proj'' ''biome.json'') = Inr ''biome.json text''"
    by (simp add: config_env_def sample_env_def)
  have c: "JSON_parse ?env ''biome.json text'' = Inl SyntaxError"
    by (simp add: config_env_def sample_env_def)
  from detectMode_parse_failure_legacy [OF a b c] a b c show ?thesis by simp
qed

section \<open>The inspection loop, characterised\<close>

text \<open>The ten digits, for running \<open>show_nat\<close>.\<close>

lemma digit_simps:
  "digit 0 = CHR ''0''" "digit 1 = CHR ''1''" "digit 2 = CHR ''2''" "digit 3 = CHR ''3''"
  "digit 4 = CHR ''4''" "digit 5 = CHR ''5''" "digit 6 = CHR ''6''" "digit 7 = CHR ''7''"
  "digit 8 = CHR ''8''" "digit 9 = CHR ''9''"
  unfolding digit_def by code_simp+


lemma indexOf_from_nonneg: "0 \<le> indexOf_from k needle s \<longleftrightarrow> sublist needle s"
proof (induction s arbitrary: k)
  case Nil
  then show ?case by simp
next
  case (Cons c cs)
  then show ?case by (simp add: sublist_Cons_right)
qed

lemma indexOf_str_nonneg: "0 \<le> indexOf_str s needle \<longleftrightarrow> sublist needle s"
  by (simp add: indexOf_str_def indexOf_from_nonneg)

lemma indexOf_elem_nonneg: "0 \<le> indexOf_elem k needle ys \<longleftrightarrow> JStr needle \<in> set ys"
  by (induction ys arbitrary: k) auto

lemma scan_array: "scan conv (JArr xs) i = scan_list (drop i xs)"
proof (induction "length xs - i" arbitrary: i)
  case 0
  then show ?case by (simp add: scan.simps [of conv "JArr xs" i])
next
  case (Suc n)
  then have lt: "i < length xs" and ih: "scan conv (JArr xs) (Suc i) = scan_list (drop (Suc i) xs)"
    by simp_all
  from lt have "drop i xs = xs ! i # drop (Suc i) xs"
    by (simp add: Cons_nth_drop_Suc)
  with lt ih show ?case
    by (simp add: scan.simps [of conv "JArr xs" i] split: sum.split)
qed

lemma scan_list_strings:
  "strings_of xs = Some ss \<Longrightarrow>
   scan_list xs = Inr (if \<exists>e\<in>set ss. sublist ''tsds-config'' e then Some Bundled else None)"
proof (induction xs arbitrary: ss rule: strings_of.induct)
  case 1
  then show ?case by simp
next
  case (2 s xs)
  then obtain ts where "strings_of xs = Some ts" "ss = s # ts" by auto
  with 2 show ?case by (simp add: indexOf_str_nonneg)
qed simp_all

lemma scan_list_Cons:
  "scan_list (x # xs) =
     (if \<not> has_indexOf x then Inl TypeError
      else if matches_marker x then Inr (Some Bundled)
      else scan_list xs)"
  by (cases x) (simp_all add: indexOf_str_nonneg indexOf_arr_def indexOf_elem_nonneg)

lemma scan_list_raises:
  "\<forall>x\<in>set pre. \<not> matches_marker x \<Longrightarrow> \<not> has_indexOf e \<Longrightarrow>
   scan_list (pre @ e # post) = Inl TypeError"
proof (induction pre)
  case Nil
  then show ?case by (simp add: scan_list_Cons del: scan_list.simps)
next
  case (Cons p pre)
  then show ?case by (simp add: scan_list_Cons del: scan_list.simps)
qed

lemma scan_list_matches:
  "\<forall>x\<in>set pre. has_indexOf x \<and> \<not> matches_marker x \<Longrightarrow> matches_marker e \<Longrightarrow>
   scan_list (pre @ e # post) = Inr (Some Bundled)"
proof (induction pre)
  case Nil
  then have "has_indexOf e" by (cases e) simp_all
  with Nil show ?case by (simp add: scan_list_Cons del: scan_list.simps)
next
  case (Cons p pre)
  then show ?case by (simp add: scan_list_Cons del: scan_list.simps)
qed

lemma scan_string: "scan conv (JStr s) i = Inr None"
proof (induction "length s - i" arbitrary: i)
  case 0
  then show ?case by (simp add: scan.simps [of conv "JStr s" i])
next
  case (Suc n)
  then have lt: "i < length s" and ih: "scan conv (JStr s) (Suc i) = Inr None"
    by simp_all
  have "\<not> prefix ''tsds-config'' [s ! i]"
    by (auto dest: prefix_length_le)
  with lt ih show ?case
    by (simp add: scan.simps [of conv "JStr s" i] indexOf_str_def)
qed

lemma scan_primitive: "is_primitive v \<Longrightarrow> scan conv (or_empty (Some v)) 0 = Inr None"
proof (cases v)
  case (JStr s)
  then show ?thesis by (simp add: scan_string scan_array)
qed (simp_all add: scan.simps [of conv _ 0] )

lemma detectMode_try_eq: "w_detectMode_try env p = detectMode_try env p"
  by (simp add: detectMode_try_def w_detectMode_try_def)

lemma detectMode_eq: "w_detectMode env cwd = detectMode env cwd"
  unfolding detectMode_def w_detectMode_def detectMode_try_eq by (rule refl)

lemma detectMode_never_raises: "\<exists>m. detectMode env cwd = Inr m"
  by (simp add: detectMode_def try_catch_def Let_def split: sum.split option.split)

lemma detectMode_of_try:
  "existsSync env (path_join env cwd ''biome.json'') \<Longrightarrow>
   detectMode env cwd =
     (case detectMode_try env (path_join env cwd ''biome.json'') of
        Inr (Some m) \<Rightarrow> Inr m
      | _ \<Rightarrow> Inr Legacy)"
  by (simp add: detectMode_def try_catch_def Let_def split: sum.split option.split)

lemma detectMode_try_parsed:
  "readFileSync env p = Inr content \<Longrightarrow> JSON_parse env content = Inr j \<Longrightarrow>
   detectMode_try env p =
     (case get_extends j of Inl e \<Rightarrow> Inl e | Inr ext \<Rightarrow> scan (to_number env) (or_empty ext) 0)"
  by (simp add: detectMode_try_def)

lemma scan_extends_list:
  assumes "extends_list j = Some ss"
  shows "(case get_extends j of Inl e \<Rightarrow> Inl e | Inr ext \<Rightarrow> scan conv (or_empty ext) 0) =
         (if \<exists>e\<in>set ss. sublist ''tsds-config'' e then Inr (Some Bundled)
          else if j = JNull then Inl TypeError else Inr None)"
proof (cases j)
  case (JObj kvs)
  show ?thesis
  proof (cases "map_of kvs ''extends''")
    case None
    with JObj assms show ?thesis by (simp add: scan_array)
  next
    case (Some v)
    show ?thesis
    proof (cases v)
      case (JArr xs)
      with JObj Some assms have "strings_of xs = Some ss" by simp
      from scan_list_strings [OF this] JObj Some JArr show ?thesis
        by (simp add: scan_array)
    next
      case JNull
      with JObj Some assms show ?thesis by (simp add: scan_array)
    next
      case (JBool b)
      with JObj Some assms show ?thesis by (simp add: scan_array split: if_splits)
    next
      case (JNum n)
      with JObj Some assms show ?thesis by (cases n) (simp_all add: scan_array split: if_splits)
    next
      case (JStr s)
      with JObj Some assms show ?thesis by (simp add: scan_array split: if_splits)
    next
      case (JObj kvs')
      with \<open>j = JObj kvs\<close> Some assms show ?thesis by simp
    qed
  qed
qed (use assms in \<open>simp_all add: scan_array\<close>)

text \<open>
  C3, as the code has it. The claim as written fails on a list with an entry that is
  not a string before the matching one: \<open>5.indexOf\<close> is not a function, the call
  raises, and the handler sends \<open>detectMode\<close> to \<open>'legacy'\<close> although a later entry
  contains the marker. For every \<open>biome.json\<close> that parses and whose \<open>extends\<close> is
  absent, falsy or an array of strings, \<open>detectMode\<close> returns \<open>'bundled'\<close> when some
  entry contains \<open>tsds-config\<close> and \<open>'legacy'\<close> otherwise, in both source files.
\<close>

theorem detectMode_extends_strings:
  assumes "existsSync env (path_join env cwd ''biome.json'')"
    and "readFileSync env (path_join env cwd ''biome.json'') = Inr content"
    and "JSON_parse env content = Inr j"
    and "extends_list j = Some ss"
  shows "detectMode env cwd = Inr (if \<exists>e\<in>set ss. sublist ''tsds-config'' e then Bundled else Legacy)
       \<and> w_detectMode env cwd = Inr (if \<exists>e\<in>set ss. sublist ''tsds-config'' e then Bundled else Legacy)"
  using assms(1) scan_extends_list [OF assms(4), of "to_number env"]
  by (simp add: detectMode_eq detectMode_of_try detectMode_try_parsed [OF assms(2,3)])

theorem detectMode_extends_strings_witness:
  "existsSync (config_env (Inr (JObj [(''extends'', JArr [JStr ''./tsds-config/biome.json''])])))
     (path_join (config_env (Inr (JObj [(''extends'', JArr [JStr ''./tsds-config/biome.json''])]))) ''/proj'' ''biome.json'')
   \<and> extends_list (JObj [(''extends'', JArr [JStr ''./tsds-config/biome.json''])])
       = Some [''./tsds-config/biome.json'']
   \<and> detectMode (config_env (Inr (JObj [(''extends'', JArr [JStr ''./tsds-config/biome.json''])]))) ''/proj''
       = Inr Bundled
   \<and> w_detectMode (config_env (Inr (JObj [(''extends'', JArr [JStr ''./tsds-config/biome.json''])]))) ''/proj''
       = Inr Bundled
   \<and> extends_list (JObj [(''extends'', JArr [JStr ''@biomejs/recommended''])]) = Some [''@biomejs/recommended'']
   \<and> detectMode (config_env (Inr (JObj [(''extends'', JArr [JStr ''@biomejs/recommended''])]))) ''/proj''
       = Inr Legacy
   \<and> detectMode (config_env (Inr (JObj [(''files'', JObj [])]))) ''/proj'' = Inr Legacy"
proof -
  let ?j = "JObj [(''extends'', JArr [JStr ''./tsds-config/biome.json''])]"
  let ?k = "JObj [(''extends'', JArr [JStr ''@biomejs/recommended''])]"
  let ?n = "JObj [(''files'', JObj [])]"
  have ex: "existsSync (config_env p) (path_join (config_env p) ''/proj'' ''biome.json'')" for p
    by (simp add: config_env_def sample_env_def)
  have rd: "readFileSync (config_env p) (path_join (config_env p) ''/proj'' ''biome.json'')
      = Inr ''biome.json text''" for p
    by (simp add: config_env_def sample_env_def)
  have pj: "JSON_parse (config_env (Inr v)) ''biome.json text'' = Inr v" for v
    by (simp add: config_env_def sample_env_def)
  have lj: "extends_list ?j = Some [''./tsds-config/biome.json'']" by simp
  have lk: "extends_list ?k = Some [''@biomejs/recommended'']" by simp
  have ln: "extends_list ?n = Some []" by simp
  have sub: "sublist ''tsds-config'' ''./tsds-config/biome.json''"
    using indexOf_str_nonneg [of "''./tsds-config/biome.json''" "''tsds-config''"]
    by (simp add: indexOf_str_def)
  have nosub: "\<not> sublist ''tsds-config'' ''@biomejs/recommended''"
    using indexOf_str_nonneg [of "''@biomejs/recommended''" "''tsds-config''"]
    by (simp add: indexOf_str_def)
  from detectMode_extends_strings [OF ex rd pj lj] detectMode_extends_strings [OF ex rd pj lk]
    detectMode_extends_strings [OF ex rd pj ln] ex lj lk sub nosub
  show ?thesis by simp
qed

text \<open>
  The \<open>biome.json\<close> with the text \<open>{"extends": [5, "tsds-config"]}\<close> parses, and its
  second entry contains the marker (at position 0), yet \<open>detectMode\<close> returns
  \<open>'legacy'\<close>.
\<close>

theorem detectMode_mixed_entries_counterexample:
  "JSON_parse (config_env (Inr (JObj [(''extends'', JArr [JNum (Fin 5), JStr ''tsds-config''])])))
      ''biome.json text''
     = Inr (JObj [(''extends'', JArr [JNum (Fin 5), JStr ''tsds-config''])])
   \<and> indexOf_str ''tsds-config'' ''tsds-config'' = 0
   \<and> detectMode (config_env (Inr (JObj [(''extends'', JArr [JNum (Fin 5), JStr ''tsds-config''])])))
        ''/proj'' = Inr Legacy
   \<and> w_detectMode (config_env (Inr (JObj [(''extends'', JArr [JNum (Fin 5), JStr ''tsds-config''])])))
        ''/proj'' = Inr Legacy"
  by (simp add: detectMode_def w_detectMode_def detectMode_try_def w_detectMode_try_def
      try_catch_def config_env_def sample_env_def scan.simps indexOf_str_def)

text \<open>
  C10, as the code has it. \<open>detectMode\<close> never raises and returns one of the two modes
  for every environment; whenever the block under \<open>try\<close> raises, the result is
  \<open>'legacy'\<close>; so it is when \<open>extends\<close> is a number, a boolean, a string or \<open>null\<close>,
  and when it is an array in which an entry that is neither a string nor an array
  comes before any entry that matches the marker (a string containing \<open>tsds-config\<close>,
  or an array with the string \<open>tsds-config\<close> as an element). When instead a matching
  entry comes before any entry that is neither a string nor an array, the result is
  \<open>'bundled'\<close>. The claim as written says \<open>'legacy'\<close> for every \<open>extends\<close> that is not an
  array of strings, which fails when a matching entry comes first.
\<close>

theorem detectMode_total:
  "(\<exists>m. detectMode env cwd = Inr m \<and> w_detectMode env cwd = Inr m)
   \<and> (existsSync env (path_join env cwd ''biome.json'')
        \<and> detectMode_try env (path_join env cwd ''biome.json'') = Inl x
      \<longrightarrow> detectMode env cwd = Inr Legacy \<and> w_detectMode env cwd = Inr Legacy)
   \<and> (existsSync env (path_join env cwd ''biome.json'')
        \<and> readFileSync env (path_join env cwd ''biome.json'') = Inr content
        \<and> JSON_parse env content = Inr j
        \<and> get_extends j = Inr (Some v) \<and> is_primitive v
      \<longrightarrow> detectMode env cwd = Inr Legacy \<and> w_detectMode env cwd = Inr Legacy)
   \<and> (existsSync env (path_join env cwd ''biome.json'')
        \<and> readFileSync env (path_join env cwd ''biome.json'') = Inr content'
        \<and> JSON_parse env content' = Inr j'
        \<and> get_extends j' = Inr (Some (JArr (pre @ e # post)))
        \<and> (\<forall>x\<in>set pre. \<not> matches_marker x) \<and> \<not> has_indexOf e
      \<longrightarrow> detectMode env cwd = Inr Legacy \<and> w_detectMode env cwd = Inr Legacy)
   \<and> (existsSync env (path_join env cwd ''biome.json'')
        \<and> readFileSync env (path_join env cwd ''biome.json'') = Inr content''
        \<and> JSON_parse env content'' = Inr j''
        \<and> get_extends j'' = Inr (Some (JArr (pre' @ e' # post')))
        \<and> (\<forall>x\<in>set pre'. has_indexOf x \<and> \<not> matches_marker x) \<and> matches_marker e'
      \<longrightarrow> detectMode env cwd = Inr Bundled \<and> w_detectMode env cwd = Inr Bundled)"
proof (intro conjI impI)
  show "\<exists>m. detectMode env cwd = Inr m \<and> w_detectMode env cwd = Inr m"
    using detectMode_never_raises [of env cwd] by (simp add: detectMode_eq)
next
  assume "existsSync env (path_join env cwd ''biome.json'')
    \<and> detectMode_try env (path_join env cwd ''biome.json'') = Inl x"
  then show "detectMode env cwd = Inr Legacy" by (simp add: detectMode_of_try)
  then show "w_detectMode env cwd = Inr Legacy" by (simp add: detectMode_eq)
next
  assume a: "existsSync env (path_join env cwd ''biome.json'')
    \<and> readFileSync env (path_join env cwd ''biome.json'') = Inr content
    \<and> JSON_parse env content = Inr j
    \<and> get_extends j = Inr (Some v) \<and> is_primitive v"
  then have "scan (to_number env) (or_empty (Some v)) 0 = Inr None"
    by (intro scan_primitive) simp
  with a have "detectMode_try env (path_join env cwd ''biome.json'') = Inr None"
    by (simp add: detectMode_try_parsed [of env _ content j] del: or_empty.simps)
  with a show "detectMode env cwd = Inr Legacy" by (simp add: detectMode_of_try)
  then show "w_detectMode env cwd = Inr Legacy" by (simp add: detectMode_eq)
next
  assume a: "existsSync env (path_join env cwd ''biome.json'')
    \<and> readFileSync env (path_join env cwd ''biome.json'') = Inr content'
    \<and> JSON_parse env content' = Inr j'
    \<and> get_extends j' = Inr (Some (JArr (pre @ e # post)))
    \<and> (\<forall>x\<in>set pre. \<not> matches_marker x) \<and> \<not> has_indexOf e"
  then have "scan_list (pre @ e # post) = Inl TypeError"
    by (intro scan_list_raises) simp_all
  with a have "detectMode_try env (path_join env cwd ''biome.json'') = Inl TypeError"
    by (simp add: detectMode_try_parsed [of env _ content' j'] scan_array)
  with a show "detectMode env cwd = Inr Legacy" by (simp add: detectMode_of_try)
  then show "w_detectMode env cwd = Inr Legacy" by (simp add: detectMode_eq)
next
  assume a: "existsSync env (path_join env cwd ''biome.json'')
    \<and> readFileSync env (path_join env cwd ''biome.json'') = Inr content''
    \<and> JSON_parse env content'' = Inr j''
    \<and> get_extends j'' = Inr (Some (JArr (pre' @ e' # post')))
    \<and> (\<forall>x\<in>set pre'. has_indexOf x \<and> \<not> matches_marker x) \<and> matches_marker e'"
  then have "scan_list (pre' @ e' # post') = Inr (Some Bundled)"
    by (intro scan_list_matches) simp_all
  with a have "detectMode_try env (path_join env cwd ''biome.json'') = Inr (Some Bundled)"
    by (simp add: detectMode_try_parsed [of env _ content'' j''] scan_array)
  with a show "detectMode env cwd = Inr Bundled" by (simp add: detectMode_of_try)
  then show "w_detectMode env cwd = Inr Bundled" by (simp add: detectMode_eq)
qed

theorem detectMode_total_witness:
  "get_extends (JObj [(''extends'', JNum (Fin 5))]) = Inr (Some (JNum (Fin 5)))
   \<and> is_primitive (JNum (Fin 5))
   \<and> detectMode (config_env (Inr (JObj [(''extends'', JNum (Fin 5))]))) ''/proj'' = Inr Legacy
   \<and> w_detectMode (config_env (Inr (JObj [(''extends'', JNum (Fin 5))]))) ''/proj'' = Inr Legacy
   \<and> get_extends (JObj [(''extends'', JArr [JArr [JStr ''x''], JNum (Fin 5), JStr ''tsds-config''])])
       = Inr (Some (JArr ([JArr [JStr ''x'']] @ JNum (Fin 5) # [JStr ''tsds-config''])))
   \<and> \<not> has_indexOf (JNum (Fin 5))
   \<and> \<not> matches_marker (JArr [JStr ''x''])
   \<and> detectMode
        (config_env (Inr (JObj [(''extends'', JArr [JArr [JStr ''x''], JNum (Fin 5), JStr ''tsds-config''])])))
        ''/proj'' = Inr Legacy
   \<and> w_detectMode
        (config_env (Inr (JObj [(''extends'', JArr [JArr [JStr ''x''], JNum (Fin 5), JStr ''tsds-config''])])))
        ''/proj'' = Inr Legacy
   \<and> detectMode_try
        (config_env (Inr (JObj [(''extends'', JArr [JStr ''a'', JNum (Fin 5), JStr ''tsds-config''])])))
        ''/proj/biome.json'' = Inl TypeError
   \<and> detectMode
        (config_env (Inr (JObj [(''extends'', JArr [JStr ''a'', JNum (Fin 5), JStr ''tsds-config''])])))
        ''/proj'' = Inr Legacy
   \<and> get_extends (JObj [(''extends'', JArr [JArr [JStr ''x''], JArr [JStr ''tsds-config''], JNum (Fin 5)])])
       = Inr (Some (JArr ([JArr [JStr ''x'']] @ JArr [JStr ''tsds-config''] # [JNum (Fin 5)])))
   \<and> has_indexOf (JArr [JStr ''x''])
   \<and> matches_marker (JArr [JStr ''tsds-config''])
   \<and> detectMode
        (config_env (Inr (JObj [(''extends'', JArr [JArr [JStr ''x''], JArr [JStr ''tsds-config''], JNum (Fin 5)])])))
        ''/proj'' = Inr Bundled
   \<and> w_detectMode
        (config_env (Inr (JObj [(''extends'', JArr [JArr [JStr ''x''], JArr [JStr ''tsds-config''], JNum (Fin 5)])])))
        ''/proj'' = Inr Bundled"
proof -
  let ?a = "JObj [(''extends'', JNum (Fin 5))]"
  let ?b = "JObj [(''extends'', JArr [JStr ''a'', JNum (Fin 5), JStr ''tsds-config''])]"
  let ?c = "JObj [(''extends'', JArr [JArr [JStr ''x''], JNum (Fin 5), JStr ''tsds-config''])]"
  let ?d = "JObj [(''extends'', JArr [JArr [JStr ''x''], JArr [JStr ''tsds-config''], JNum (Fin 5)])]"
  have ex: "existsSync (config_env p) (path_join (config_env p) ''/proj'' ''biome.json'')" for p
    by (simp add: config_env_def sample_env_def)
  have rd: "readFileSync (config_env p) (path_join (config_env p) ''/proj'' ''biome.json'')
      = Inr ''biome.json text''" for p
    by (simp add: config_env_def sample_env_def)
  have pj: "JSON_parse (config_env (Inr v)) ''biome.json text'' = Inr v" for v
    by (simp add: config_env_def sample_env_def)
  have path: "path_join (config_env p) ''/proj'' ''biome.json'' = ''/proj/biome.json''" for p
    by (simp add: config_env_def sample_env_def)
  have raised: "detectMode_try (config_env (Inr ?b)) ''/proj/biome.json'' = Inl TypeError"
    by (simp add: detectMode_try_def config_env_def sample_env_def scan.simps indexOf_str_def)
  have prim: "detectMode (config_env (Inr ?a)) ''/proj'' = Inr Legacy
      \<and> w_detectMode (config_env (Inr ?a)) ''/proj'' = Inr Legacy"
    using detectMode_total [where env = "config_env (Inr ?a)" and cwd = "''/proj''"
        and content = "''biome.json text''" and j = ?a and v = "JNum (Fin 5)"] ex rd pj
    by simp
  have mixed: "detectMode (config_env (Inr ?b)) ''/proj'' = Inr Legacy"
    using detectMode_total [where env = "config_env (Inr ?b)" and cwd = "''/proj''"
        and x = TypeError] ex raised path
    by simp
  have nested: "detectMode (config_env (Inr ?c)) ''/proj'' = Inr Legacy
      \<and> w_detectMode (config_env (Inr ?c)) ''/proj'' = Inr Legacy"
    using detectMode_total [where env = "config_env (Inr ?c)" and cwd = "''/proj''"
        and content' = "''biome.json text''" and j' = ?c and pre = "[JArr [JStr ''x'']]"
        and e = "JNum (Fin 5)" and post = "[JStr ''tsds-config'']"] ex rd pj
    by simp
  have first: "detectMode (config_env (Inr ?d)) ''/proj'' = Inr Bundled
      \<and> w_detectMode (config_env (Inr ?d)) ''/proj'' = Inr Bundled"
    using detectMode_total [where env = "config_env (Inr ?d)" and cwd = "''/proj''"
        and content'' = "''biome.json text''" and j'' = ?d and pre' = "[JArr [JStr ''x'']]"
        and e' = "JArr [JStr ''tsds-config'']" and post' = "[JNum (Fin 5)]"] ex rd pj
    by simp
  from prim mixed nested first raised show ?thesis by simp
qed

text \<open>
  The \<open>biome.json\<close> with the text \<open>{"extends": ["tsds-config", 5]}\<close>: \<open>extends\<close> is
  not an array of strings, and \<open>detectMode\<close> returns \<open>'bundled'\<close> at the first entry.
\<close>

theorem detectMode_match_before_number_counterexample:
  "strings_of [JStr ''tsds-config'', JNum (Fin 5)] = None
   \<and> detectMode (config_env (Inr (JObj [(''extends'', JArr [JStr ''tsds-config'', JNum (Fin 5)])])))
        ''/proj'' = Inr Bundled
   \<and> w_detectMode (config_env (Inr (JObj [(''extends'', JArr [JStr ''tsds-config'', JNum (Fin 5)])])))
        ''/proj'' = Inr Bundled"
  by (simp add: detectMode_def w_detectMode_def detectMode_try_def w_detectMode_try_def
      try_catch_def config_env_def sample_env_def scan.simps indexOf_str_def)


text \<open>
  An object that looks like an array, \<open>{"extends": {"length": 1, "0": "tsds-config"}}\<close>,
  is inspected like one and gives \<open>'bundled'\<close>: this is why the statement above is
  about primitive values of \<open>extends\<close> only.
\<close>

lemma detectMode_array_like_object: "detectMode (config_env (Inr (JObj [(''extends'', JObj [(''length'', JNum (Fin 1)), (''0'', JStr ''tsds-config'')])])))
        ''/proj'' = Inr Bundled"
  by (simp add: detectMode_def w_detectMode_def detectMode_try_def w_detectMode_try_def
      try_catch_def config_env_def sample_env_def scan.simps indexOf_str_def show_nat.simps digit_simps)

section \<open>The dispatcher, branch by branch\<close>

text \<open>
  The loop that forwards the arguments is a filter; the functions of the second source
  file are those of \<open>command.ts\<close>; and each of the five branches, with the condition
  under which it is taken, plus the bundled branch when the binary does not resolve.
\<close>

lemma push_args_filter:
  "push_args spawnArgs args = spawnArgs @ filter (\<lambda>a. a \<notin> control_flags) args"
  by (induction args arbitrary: spawnArgs) (simp_all add: control_flags_def)

lemma resolveDefaultConfig_cases:
  "resolveDefaultConfig env =
     Inr (case require_resolve env ''tsds-config/biome.json'' of Inl e \<Rightarrow> None | Inr p \<Rightarrow> Some p)"
  by (simp add: resolveDefaultConfig_def try_catch_def split: sum.split)

lemma w_isWindows_eq: "w_isWindows env = isWindows env"
  by (simp add: w_isWindows_def isWindows_def)

lemma w_resolveBiomeBin_eq: "w_resolveBiomeBin env = resolveBiomeBin env"
  by (simp add: w_resolveBiomeBin_def resolveBiomeBin_def)

lemma w_resolveDefaultConfig_eq: "w_resolveDefaultConfig env = resolveDefaultConfig env"
  by (simp add: w_resolveDefaultConfig_def resolveDefaultConfig_def)

lemma worker_eq: "worker env args options callback = run env args options callback"
  unfolding worker_def run_def w_isWindows_eq detectMode_eq w_resolveBiomeBin_eq
    w_resolveDefaultConfig_eq
  by (rule refl)

lemma run_unsupported:
  "unsupported_platform env \<Longrightarrow> run env args options callback = ([Call callback], Returned)"
  by (simp add: run_def unsupported_platform_def Let_def)

lemma run_dry_run:
  "\<not> unsupported_platform env \<Longrightarrow> dry_run (getopts env args) \<Longrightarrow>
   run env args options callback =
     ([Log ''Dry-run: would format code with biome'', Call callback], Returned)"
  by (simp add: run_def unsupported_platform_def Let_def)

lemma run_legacy_flag:
  "\<not> unsupported_platform env \<Longrightarrow> \<not> dry_run (getopts env args) \<Longrightarrow>
   legacy (getopts env args) \<Longrightarrow>
   run env args options callback =
     ([Log ''[tsds-biome] Using legacy mode (npm run format)'',
       Spawn ''npm'' [''run'', ''format'']
         (options\<lparr>options_cwd := Some (working_directory env options)\<rparr>) callback],
      Returned)"
  by (simp add: run_def unsupported_platform_def working_directory_def Let_def)

lemma run_detected_legacy:
  "\<not> unsupported_platform env \<Longrightarrow> \<not> dry_run (getopts env args) \<Longrightarrow>
   \<not> legacy (getopts env args) \<Longrightarrow>
   detectMode env (working_directory env options) = Inr Legacy \<Longrightarrow>
   run env args options callback =
     ([Log ''[tsds-biome] Using legacy mode (npm run format)'',
       Log ''[tsds-biome] To migrate: extend tsds-config/biome.json in your biome.json'',
       Spawn ''npm'' [''run'', ''format'']
         (options\<lparr>options_cwd := Some (working_directory env options)\<rparr>) callback],
      Returned)"
  by (simp add: run_def unsupported_platform_def working_directory_def Let_def)

lemma run_bundled:
  "\<not> unsupported_platform env \<Longrightarrow> \<not> dry_run (getopts env args) \<Longrightarrow>
   \<not> legacy (getopts env args) \<Longrightarrow>
   detectMode env (working_directory env options) = Inr Bundled \<Longrightarrow>
   resolveBiomeBin env = Inr biomeBin \<Longrightarrow>
   run env args options callback =
     ([Spawn biomeBin
         ([''check'', ''--write'', ''--unsafe'']
          @ config_path_args env (working_directory env options)
          @ filter (\<lambda>a. a \<notin> control_flags) args)
         (options\<lparr>options_cwd := Some (working_directory env options)\<rparr>) callback],
      Returned)"
  by (simp add: run_def unsupported_platform_def working_directory_def Let_def
      resolveDefaultConfig_cases config_path_args_def push_args_filter split: sum.split)

lemma run_bundled_raises:
  "\<not> unsupported_platform env \<Longrightarrow> \<not> dry_run (getopts env args) \<Longrightarrow>
   \<not> legacy (getopts env args) \<Longrightarrow>
   detectMode env (working_directory env options) = Inr Bundled \<Longrightarrow>
   resolveBiomeBin env = Inl e \<Longrightarrow>
   run env args options callback = ([], Threw e)"
  by (simp add: run_def unsupported_platform_def working_directory_def Let_def)

lemma sample_supported: "\<not> unsupported_platform sample_env"
  by (simp add: unsupported_platform_def isWindows_def sample_env_def)

lemma config_supported: "\<not> unsupported_platform (config_env p)"
  by (simp add: unsupported_platform_def isWindows_def config_env_def sample_env_def)

lemma sample_working_directory [simp]: "working_directory env sample_options = ''/proj''"
  by (simp add: working_directory_def sample_options_def)

section \<open>Dispatch\<close>

text \<open>
  C4. When the option parser reports \<open>--dry-run\<close> (or its alias \<open>-d\<close>), or the
  platform is of the Windows family and the architecture is neither x64 nor arm64, the
  dispatcher never calls the spawn collaborator and calls the completion callback once,
  directly. The platform guard comes first: on an unsupported platform nothing is
  printed even with the flag; otherwise the dry-run line is printed and the callback
  called. The second source file does the same.
\<close>

theorem run_noop:
  assumes "dry_run (getopts env args) \<or> unsupported_platform env"
  shows "run env args options callback =
           (if unsupported_platform env then [Call callback]
            else [Log ''Dry-run: would format code with biome'', Call callback],
            Returned)
       \<and> worker env args options callback = run env args options callback
       \<and> spawn_count (fst (run env args options callback)) = 0
       \<and> call_count (fst (run env args options callback)) = 1"
proof (cases "unsupported_platform env")
  case True
  then show ?thesis
    by (simp add: run_unsupported worker_eq spawn_count_def call_count_def)
next
  case False
  with assms have "dry_run (getopts env args)" by simp
  with False show ?thesis
    by (simp add: run_dry_run worker_eq spawn_count_def call_count_def)
qed

theorem run_noop_witness:
  "dry_run (getopts sample_env [''--dry-run'', ''src''])
   \<and> run sample_env [''--dry-run'', ''src''] sample_options (0::nat)
       = ([Log ''Dry-run: would format code with biome'', Call 0], Returned)
   \<and> unsupported_platform windows_ia32_env
   \<and> dry_run (getopts windows_ia32_env [''-d''])
   \<and> run windows_ia32_env [''-d''] sample_options (0::nat) = ([Call 0], Returned)
   \<and> worker windows_ia32_env [''-d''] sample_options (0::nat) = ([Call 0], Returned)"
proof -
  have d1: "dry_run (getopts sample_env [''--dry-run'', ''src''])"
    by (simp add: sample_env_def sample_getopts_def)
  have d2: "dry_run (getopts windows_ia32_env [''-d''])"
    by (simp add: windows_ia32_env_def sample_env_def sample_getopts_def)
  have u2: "unsupported_platform windows_ia32_env"
    by (simp add: unsupported_platform_def isWindows_def windows_ia32_env_def sample_env_def)
  from run_noop [of sample_env "[''--dry-run'', ''src'']" sample_options "0::nat"]
    run_noop [of windows_ia32_env "[''-d'']" sample_options "0::nat"]
    d1 d2 u2 sample_supported
  show ?thesis by simp
qed

text \<open>
  C5. In the bundled branch the argument list handed to the spawn collaborator is the
  three fixed tokens, the configuration path arguments, and the caller's arguments with
  exactly \<open>--legacy\<close>, \<open>--dry-run\<close> and \<open>-d\<close> filtered out, in their order; none of
  the three tokens is in the list (the path \<open>require.resolve\<close> returns is a file name,
  not one of them). The second source file does the same.
\<close>

theorem run_bundled_forwards:
  assumes "\<not> unsupported_platform env"
    and "\<not> dry_run (getopts env args)"
    and "\<not> legacy (getopts env args)"
    and "detectMode env (working_directory env options) = Inr Bundled"
    and "resolveBiomeBin env = Inr biomeBin"
    and "\<forall>flag\<in>control_flags. require_resolve env ''tsds-config/biome.json'' \<noteq> Inr flag"
  shows "fst (run env args options callback) =
           [Spawn biomeBin
              ([''check'', ''--write'', ''--unsafe'']
               @ config_path_args env (working_directory env options)
               @ filter (\<lambda>a. a \<notin> control_flags) args)
              (options\<lparr>options_cwd := Some (working_directory env options)\<rparr>) callback]
       \<and> set ([''check'', ''--write'', ''--unsafe'']
               @ config_path_args env (working_directory env options)
               @ filter (\<lambda>a. a \<notin> control_flags) args) \<inter> control_flags = {}
       \<and> worker env args options callback = run env args options callback"
proof -
  have "set (config_path_args env cwd) \<inter> control_flags = {}" for cwd
    using assms(6)
    by (auto simp: config_path_args_def control_flags_def split: sum.splits if_splits)
  moreover have "set [''check'', ''--write'', ''--unsafe''] \<inter> control_flags = {}"
    by (simp add: control_flags_def)
  moreover have "set (filter (\<lambda>a. a \<notin> control_flags) args) \<inter> control_flags = {}"
    by auto
  ultimately have "set ([''check'', ''--write'', ''--unsafe'']
               @ config_path_args env (working_directory env options)
               @ filter (\<lambda>a. a \<notin> control_flags) args) \<inter> control_flags = {}"
    unfolding set_append by blast
  with run_bundled [OF assms(1-5), of callback] show ?thesis by (simp add: worker_eq)
qed

theorem run_bundled_forwards_witness:
  "\<not> dry_run (getopts sample_env [''--fix'', ''--'', ''-d'', ''src''])
   \<and> \<not> legacy (getopts sample_env [''--fix'', ''--'', ''-d'', ''src''])
   \<and> detectMode sample_env ''/proj'' = Inr Bundled
   \<and> fst (run sample_env [''--fix'', ''--'', ''-d'', ''src''] sample_options (0::nat)) =
       [Spawn ''/proj/node_modules/@biomejs/biome/bin/biome''
          [''check'', ''--write'', ''--unsafe'', ''--config-path'',
           ''/proj/node_modules/tsds-config/biome.json'', ''--fix'', ''--'', ''src'']
          sample_options 0]"
proof -
  let ?args = "[''--fix'', ''--'', ''-d'', ''src'']"
  have d: "\<not> dry_run (getopts sample_env ?args)" and l: "\<not> legacy (getopts sample_env ?args)"
    by (simp_all add: sample_env_def sample_getopts_def)
  have m: "detectMode sample_env (working_directory sample_env sample_options) = Inr Bundled"
    by (simp add: detectMode_def sample_env_def)
  have b: "resolveBiomeBin sample_env = Inr ''/proj/node_modules/@biomejs/biome/bin/biome''"
    by (simp add: resolveBiomeBin_def sample_env_def)
  have c: "\<forall>flag\<in>control_flags. require_resolve sample_env ''tsds-config/biome.json'' \<noteq> Inr flag"
    by (simp add: control_flags_def sample_env_def)
  have cfg: "config_path_args sample_env ''/proj''
      = [''--config-path'', ''/proj/node_modules/tsds-config/biome.json'']"
    by (simp add: config_path_args_def sample_env_def)
  have opts: "sample_options\<lparr>options_cwd := Some ''/proj''\<rparr> = sample_options"
    by (simp add: sample_options_def)
  from run_bundled_forwards [OF sample_supported d l m b c, of "0::nat"] d l m cfg opts
  show ?thesis by (simp add: control_flags_def)
qed

text \<open>
  C6. In the bundled branch the spawned argument list begins with \<open>check\<close>,
  \<open>--write\<close>, \<open>--unsafe\<close>; \<open>--config-path\<close> and the resolved path follow them exactly
  when no local \<open>biome.json\<close> exists and \<open>require.resolve\<close> returns a (non-empty) path;
  when the resolution raises, the call goes on without the flag and returns normally.
  The second source file does the same.
\<close>

theorem run_bundled_config_path:
  assumes "\<not> unsupported_platform env"
    and "\<not> dry_run (getopts env args)"
    and "\<not> legacy (getopts env args)"
    and "detectMode env (working_directory env options) = Inr Bundled"
    and "resolveBiomeBin env = Inr biomeBin"
  shows "run env args options callback =
           ([Spawn biomeBin
               ([''check'', ''--write'', ''--unsafe'']
                @ (case require_resolve env ''tsds-config/biome.json'' of
                     Inl e \<Rightarrow> []
                   | Inr p \<Rightarrow>
                       if \<not> existsSync env (path_join env (working_directory env options) ''biome.json'')
                          \<and> p \<noteq> []
                       then [''--config-path'', p] else [])
                @ filter (\<lambda>a. a \<notin> control_flags) args)
               (options\<lparr>options_cwd := Some (working_directory env options)\<rparr>) callback],
            Returned)
       \<and> worker env args options callback = run env args options callback"
  using run_bundled [OF assms, of callback]
  by (simp add: worker_eq config_path_args_def split: sum.split)

theorem run_bundled_config_path_witness:
  "run sample_env [''--fix''] sample_options (0::nat) =
     ([Spawn ''/proj/node_modules/@biomejs/biome/bin/biome''
         [''check'', ''--write'', ''--unsafe'', ''--config-path'',
          ''/proj/node_modules/tsds-config/biome.json'', ''--fix'']
         sample_options 0], Returned)
   \<and> require_resolve unresolved_config_env ''tsds-config/biome.json''
       = Inl (SystemError ''MODULE_NOT_FOUND'')
   \<and> run unresolved_config_env [''--fix''] sample_options (0::nat) =
     ([Spawn ''/proj/node_modules/@biomejs/biome/bin/biome''
         [''check'', ''--write'', ''--unsafe'', ''--fix''] sample_options 0], Returned)
   \<and> run (config_env (Inr (JObj [(''extends'', JArr [JStr ''./tsds-config/biome.json''])]))) []
       sample_options (0::nat) =
     ([Spawn ''/proj/node_modules/@biomejs/biome/bin/biome''
         [''check'', ''--write'', ''--unsafe''] sample_options 0], Returned)"
proof -
  let ?cfg = "config_env (Inr (JObj [(''extends'', JArr [JStr ''./tsds-config/biome.json''])]))"
  have opts: "sample_options\<lparr>options_cwd := Some ''/proj''\<rparr> = sample_options"
    by (simp add: sample_options_def)
  have s: "\<not> unsupported_platform unresolved_config_env"
    by (simp add: unsupported_platform_def isWindows_def unresolved_config_env_def sample_env_def)
  have f1: "\<not> dry_run (getopts sample_env [''--fix''])" "\<not> legacy (getopts sample_env [''--fix''])"
    "\<not> dry_run (getopts unresolved_config_env [''--fix''])"
    "\<not> legacy (getopts unresolved_config_env [''--fix''])"
    "\<not> dry_run (getopts ?cfg [])" "\<not> legacy (getopts ?cfg [])"
    by (simp_all add: unresolved_config_env_def config_env_def sample_env_def sample_getopts_def)
  have m1: "detectMode sample_env (working_directory sample_env sample_options) = Inr Bundled"
    by (simp add: detectMode_def sample_env_def)
  have m2: "detectMode unresolved_config_env (working_directory unresolved_config_env sample_options)
      = Inr Bundled"
    by (simp add: detectMode_def unresolved_config_env_def sample_env_def)
  have m3: "detectMode ?cfg (working_directory ?cfg sample_options) = Inr Bundled"
    by (simp add: detectMode_def detectMode_try_def try_catch_def config_env_def sample_env_def
        scan.simps indexOf_str_def)
  have b: "resolveBiomeBin sample_env = Inr ''/proj/node_modules/@biomejs/biome/bin/biome''"
    "resolveBiomeBin unresolved_config_env = Inr ''/proj/node_modules/@biomejs/biome/bin/biome''"
    "resolveBiomeBin ?cfg = Inr ''/proj/node_modules/@biomejs/biome/bin/biome''"
    by (simp_all add: resolveBiomeBin_def unresolved_config_env_def config_env_def sample_env_def)
  have r1: "run sample_env [''--fix''] sample_options (0::nat) =
     ([Spawn ''/proj/node_modules/@biomejs/biome/bin/biome''
         [''check'', ''--write'', ''--unsafe'', ''--config-path'',
          ''/proj/node_modules/tsds-config/biome.json'', ''--fix'']
         sample_options 0], Returned)"
    using run_bundled_config_path [OF sample_supported f1(1,2) m1 b(1), of "0::nat"] opts
    by (simp add: sample_env_def control_flags_def)
  have r2: "run unresolved_config_env [''--fix''] sample_options (0::nat) =
     ([Spawn ''/proj/node_modules/@biomejs/biome/bin/biome''
         [''check'', ''--write'', ''--unsafe'', ''--fix''] sample_options 0], Returned)"
    using run_bundled_config_path [OF s f1(3,4) m2 b(2), of "0::nat"] opts
    by (simp add: unresolved_config_env_def sample_env_def control_flags_def)
  have r3: "run ?cfg [] sample_options (0::nat) =
     ([Spawn ''/proj/node_modules/@biomejs/biome/bin/biome''
         [''check'', ''--write'', ''--unsafe''] sample_options 0], Returned)"
    using run_bundled_config_path [OF config_supported f1(5,6) m3 b(3), of "0::nat"] opts
    by (simp add: config_env_def sample_env_def control_flags_def)
  have u: "require_resolve unresolved_config_env ''tsds-config/biome.json''
       = Inl (SystemError ''MODULE_NOT_FOUND'')"
    by (simp add: unresolved_config_env_def sample_env_def)
  from r1 r2 r3 u show ?thesis by simp
qed

text \<open>
  C7. Whenever the legacy action is taken (the platform is supported, there is no
  dry run, and \<open>--legacy\<close> is set or \<open>detectMode\<close> returns \<open>'legacy'\<close>), the dispatcher
  spawns \<open>npm run format\<close> with the caller's options and working directory and the
  callback itself; the spawned arguments do not depend on the caller's arguments; and
  with \<open>--legacy\<close> set the result is the same whatever the file system and
  \<open>JSON.parse\<close> would answer. The second source file does the same.
\<close>

theorem run_legacy_action:
  assumes "\<not> unsupported_platform env"
    and "\<not> dry_run (getopts env args)"
    and "legacy (getopts env args) \<or> detectMode env (working_directory env options) = Inr Legacy"
  shows "run env args options callback =
           ((if legacy (getopts env args)
             then [Log ''[tsds-biome] Using legacy mode (npm run format)'']
             else [Log ''[tsds-biome] Using legacy mode (npm run format)'',
                   Log ''[tsds-biome] To migrate: extend tsds-config/biome.json in your biome.json''])
            @ [Spawn ''npm'' [''run'', ''format'']
                 (options\<lparr>options_cwd := Some (working_directory env options)\<rparr>) callback],
            Returned)
       \<and> worker env args options callback = run env args options callback
       \<and> (legacy (getopts env args) \<longrightarrow>
            run (env\<lparr>existsSync := ex, readFileSync := rd, JSON_parse := pj\<rparr>) args options callback
              = run env args options callback)"
proof (cases "legacy (getopts env args)")
  case True
  let ?env' = "env\<lparr>existsSync := ex, readFileSync := rd, JSON_parse := pj\<rparr>"
  have "\<not> unsupported_platform ?env'" "\<not> dry_run (getopts ?env' args)" "legacy (getopts ?env' args)"
    using assms(1,2) True by (simp_all add: unsupported_platform_def isWindows_def)
  from run_legacy_flag [OF this, of options callback] run_legacy_flag [OF assms(1,2) True, of options callback]
  show ?thesis using True by (simp add: worker_eq working_directory_def split: option.split)
next
  case False
  with assms(3) have "detectMode env (working_directory env options) = Inr Legacy" by simp
  from run_detected_legacy [OF assms(1,2) False this, of callback] False
  show ?thesis by (simp add: worker_eq)
qed

theorem run_legacy_action_witness:
  "legacy (getopts (config_env (Inl SyntaxError)) [''--legacy'', ''--fix''])
   \<and> run (config_env (Inl SyntaxError)) [''--legacy'', ''--fix''] sample_options (0::nat) =
       ([Log ''[tsds-biome] Using legacy mode (npm run format)'',
         Spawn ''npm'' [''run'', ''format''] sample_options 0], Returned)
   \<and> run sample_env [''--legacy'', ''--fix''] sample_options (0::nat)
       = run (config_env (Inl SyntaxError)) [''--legacy'', ''--fix''] sample_options (0::nat)
   \<and> detectMode (config_env (Inl SyntaxError)) ''/proj'' = Inr Legacy
   \<and> run (config_env (Inl SyntaxError)) [''--fix''] sample_options (0::nat) =
       ([Log ''[tsds-biome] Using legacy mode (npm run format)'',
         Log ''[tsds-biome] To migrate: extend tsds-config/biome.json in your biome.json'',
         Spawn ''npm'' [''run'', ''format''] sample_options 0], Returned)"
proof -
  let ?env = "config_env (Inl SyntaxError)"
  have opts: "sample_options\<lparr>options_cwd := Some ''/proj''\<rparr> = sample_options"
    by (simp add: sample_options_def)
  have f: "\<not> dry_run (getopts sample_env [''--legacy'', ''--fix''])"
    "legacy (getopts sample_env [''--legacy'', ''--fix''])"
    "\<not> dry_run (getopts ?env [''--legacy'', ''--fix''])"
    "legacy (getopts ?env [''--legacy'', ''--fix''])"
    "\<not> dry_run (getopts ?env [''--fix''])" "\<not> legacy (getopts ?env [''--fix''])"
    by (simp_all add: config_env_def sample_env_def sample_getopts_def)
  have m: "detectMode ?env (working_directory ?env sample_options) = Inr Legacy"
    by (simp add: detectMode_def detectMode_try_def try_catch_def config_env_def sample_env_def)
  have upd: "?env = sample_env\<lparr>existsSync := existsSync ?env, readFileSync := readFileSync ?env,
      JSON_parse := JSON_parse ?env\<rparr>"
    by (simp add: config_env_def)
  have r0: "run ?env [''--legacy'', ''--fix''] sample_options (0::nat)
      = run sample_env [''--legacy'', ''--fix''] sample_options (0::nat)"
    using run_legacy_action [where env = sample_env and args = "[''--legacy'', ''--fix'']"
        and options = sample_options and ex = "existsSync ?env" and rd = "readFileSync ?env"
        and pj = "JSON_parse ?env" and callback = "0::nat"]
      sample_supported f(1,2) upd
    by simp
  have r1: "run ?env [''--legacy'', ''--fix''] sample_options (0::nat) =
       ([Log ''[tsds-biome] Using legacy mode (npm run format)'',
         Spawn ''npm'' [''run'', ''format''] sample_options 0], Returned)"
    using run_legacy_action [where env = ?env and args = "[''--legacy'', ''--fix'']"
        and options = sample_options and callback = "0::nat"]
      config_supported [of "Inl SyntaxError"] f(3,4) opts
    by simp
  have r2: "run ?env [''--fix''] sample_options (0::nat) =
       ([Log ''[tsds-biome] Using legacy mode (npm run format)'',
         Log ''[tsds-biome] To migrate: extend tsds-config/biome.json in your biome.json'',
         Spawn ''npm'' [''run'', ''format''] sample_options 0], Returned)"
    using run_legacy_action [where env = ?env and args = "[''--fix'']"
        and options = sample_options and callback = "0::nat"]
      config_supported [of "Inl SyntaxError"] f(5,6) m opts
    by simp
  from r0 r1 r2 f(4) m show ?thesis by simp
qed

text \<open>
  C8, as the code has it. Unless the bundled branch is reached and the resolver of the
  binary raises, the dispatcher returns normally, hands the callback over exactly once
  (called directly, or given to the spawn collaborator) and its effects are those of
  exactly one of the five branches. When the bundled branch is reached and the resolver
  raises, the exception leaves the dispatcher and the callback is never handed over:
  nothing in the code turns a local exception into a call of the callback. The second
  source file does the same.
\<close>

theorem run_completes_once:
  "(unsupported_platform env \<or> dry_run (getopts env args) \<or> legacy (getopts env args)
      \<or> detectMode env (working_directory env options) = Inr Legacy
      \<or> resolveBiomeBin env = Inr biomeBin
    \<longrightarrow> snd (run env args options callback) = Returned
        \<and> call_count (fst (run env args options callback))
            + spawn_count (fst (run env args options callback)) = 1
        \<and> (fst (run env args options callback) = [Call callback]
           \<or> fst (run env args options callback)
               = [Log ''Dry-run: would format code with biome'', Call callback]
           \<or> fst (run env args options callback)
               = [Log ''[tsds-biome] Using legacy mode (npm run format)'',
                  Spawn ''npm'' [''run'', ''format'']
                    (options\<lparr>options_cwd := Some (working_directory env options)\<rparr>) callback]
           \<or> fst (run env args options callback)
               = [Log ''[tsds-biome] Using legacy mode (npm run format)'',
                  Log ''[tsds-biome] To migrate: extend tsds-config/biome.json in your biome.json'',
                  Spawn ''npm'' [''run'', ''format'']
                    (options\<lparr>options_cwd := Some (working_directory env options)\<rparr>) callback]
           \<or> (\<exists>spawnArgs. fst (run env args options callback)
               = [Spawn biomeBin spawnArgs
                    (options\<lparr>options_cwd := Some (working_directory env options)\<rparr>) callback])))
   \<and> (\<not> unsupported_platform env \<and> \<not> dry_run (getopts env args) \<and> \<not> legacy (getopts env args)
        \<and> detectMode env (working_directory env options) = Inr Bundled
        \<and> resolveBiomeBin env = Inl e
      \<longrightarrow> run env args options callback = ([], Threw e))
   \<and> worker env args options callback = run env args options callback"
proof (intro conjI impI)
  assume a: "unsupported_platform env \<or> dry_run (getopts env args) \<or> legacy (getopts env args)
      \<or> detectMode env (working_directory env options) = Inr Legacy
      \<or> resolveBiomeBin env = Inr biomeBin"
  let ?r = "run env args options callback"
  let ?o = "options\<lparr>options_cwd := Some (working_directory env options)\<rparr>"
  consider (unsupported) "unsupported_platform env"
    | (dry) "\<not> unsupported_platform env" "dry_run (getopts env args)"
    | (flag) "\<not> unsupported_platform env" "\<not> dry_run (getopts env args)"
        "legacy (getopts env args)"
    | (detected) "\<not> unsupported_platform env" "\<not> dry_run (getopts env args)"
        "\<not> legacy (getopts env args)" "detectMode env (working_directory env options) = Inr Legacy"
    | (bundled) "\<not> unsupported_platform env" "\<not> dry_run (getopts env args)"
        "\<not> legacy (getopts env args)" "detectMode env (working_directory env options) = Inr Bundled"
        "resolveBiomeBin env = Inr biomeBin"
  proof -
    obtain m where m: "detectMode env (working_directory env options) = Inr m"
      using detectMode_never_raises by blast
    show ?thesis
    proof (cases m)
      case Bundled
      with m a that show ?thesis by auto
    next
      case Legacy
      with m that show ?thesis by auto
    qed
  qed
  then have all: "snd ?r = Returned \<and> call_count (fst ?r) + spawn_count (fst ?r) = 1
      \<and> (fst ?r = [Call callback]
         \<or> fst ?r = [Log ''Dry-run: would format code with biome'', Call callback]
         \<or> fst ?r = [Log ''[tsds-biome] Using legacy mode (npm run format)'',
                      Spawn ''npm'' [''run'', ''format''] ?o callback]
         \<or> fst ?r = [Log ''[tsds-biome] Using legacy mode (npm run format)'',
               Log ''[tsds-biome] To migrate: extend tsds-config/biome.json in your biome.json'',
               Spawn ''npm'' [''run'', ''format''] ?o callback]
         \<or> (\<exists>spawnArgs. fst ?r = [Spawn biomeBin spawnArgs ?o callback]))"
  proof cases
    case unsupported
    then show ?thesis by (simp add: run_unsupported call_count_def spawn_count_def)
  next
    case dry
    then show ?thesis by (simp add: run_dry_run call_count_def spawn_count_def)
  next
    case flag
    then show ?thesis by (simp add: run_legacy_flag call_count_def spawn_count_def)
  next
    case detected
    then show ?thesis by (simp add: run_detected_legacy call_count_def spawn_count_def)
  next
    case bundled
    then show ?thesis by (simp add: run_bundled call_count_def spawn_count_def)
  qed
  from all show "snd ?r = Returned" by simp
  from all show "call_count (fst ?r) + spawn_count (fst ?r) = 1" by simp
  from all show "fst ?r = [Call callback]
         \<or> fst ?r = [Log ''Dry-run: would format code with biome'', Call callback]
         \<or> fst ?r = [Log ''[tsds-biome] Using legacy mode (npm run format)'',
                      Spawn ''npm'' [''run'', ''format''] ?o callback]
         \<or> fst ?r = [Log ''[tsds-biome] Using legacy mode (npm run format)'',
               Log ''[tsds-biome] To migrate: extend tsds-config/biome.json in your biome.json'',
               Spawn ''npm'' [''run'', ''format''] ?o callback]
         \<or> (\<exists>spawnArgs. fst ?r = [Spawn biomeBin spawnArgs ?o callback])" by simp
next
  assume "\<not> unsupported_platform env \<and> \<not> dry_run (getopts env args) \<and> \<not> legacy (getopts env args)
        \<and> detectMode env (working_directory env options) = Inr Bundled
        \<and> resolveBiomeBin env = Inl e"
  then show "run env args options callback = ([], Threw e)"
    by (simp add: run_bundled_raises)
next
  show "worker env args options callback = run env args options callback"
    by (rule worker_eq)
qed

theorem run_completes_once_witness:
  "resolveBiomeBin sample_env = Inr ''/proj/node_modules/@biomejs/biome/bin/biome''
   \<and> snd (run sample_env [''--fix''] sample_options (0::nat)) = Returned
   \<and> call_count (fst (run sample_env [''--fix''] sample_options (0::nat)))
       + spawn_count (fst (run sample_env [''--fix''] sample_options (0::nat))) = 1
   \<and> \<not> unsupported_platform unresolved_bin_env
   \<and> \<not> dry_run (getopts unresolved_bin_env [''--fix''])
   \<and> \<not> legacy (getopts unresolved_bin_env [''--fix''])
   \<and> detectMode unresolved_bin_env ''/proj'' = Inr Bundled
   \<and> resolveBiomeBin unresolved_bin_env = Inl (SystemError ''MODULE_NOT_FOUND'')
   \<and> run unresolved_bin_env [''--fix''] sample_options (0::nat)
       = ([], Threw (SystemError ''MODULE_NOT_FOUND''))"
proof -
  have b: "resolveBiomeBin sample_env = Inr ''/proj/node_modules/@biomejs/biome/bin/biome''"
    by (simp add: resolveBiomeBin_def sample_env_def)
  have s: "\<not> unsupported_platform unresolved_bin_env"
    by (simp add: unsupported_platform_def isWindows_def unresolved_bin_env_def sample_env_def)
  have f: "\<not> dry_run (getopts unresolved_bin_env [''--fix''])"
    "\<not> legacy (getopts unresolved_bin_env [''--fix''])"
    by (simp_all add: unresolved_bin_env_def sample_env_def sample_getopts_def)
  have m: "detectMode unresolved_bin_env (working_directory unresolved_bin_env sample_options)
      = Inr Bundled"
    by (simp add: detectMode_def unresolved_bin_env_def sample_env_def)
  have r: "resolveBiomeBin unresolved_bin_env = Inl (SystemError ''MODULE_NOT_FOUND'')"
    by (simp add: resolveBiomeBin_def unresolved_bin_env_def sample_env_def)
  from run_completes_once [where env = sample_env and args = "[''--fix'']"
      and options = sample_options and callback = "0::nat"
      and biomeBin = "''/proj/node_modules/@biomejs/biome/bin/biome''"] b
  have ok: "snd (run sample_env [''--fix''] sample_options (0::nat)) = Returned
    \<and> call_count (fst (run sample_env [''--fix''] sample_options (0::nat)))
       + spawn_count (fst (run sample_env [''--fix''] sample_options (0::nat))) = 1"
    by simp
  from run_completes_once [where env = unresolved_bin_env and args = "[''--fix'']"
      and options = sample_options and callback = "0::nat"
      and e = "SystemError ''MODULE_NOT_FOUND''"] s f m r
  have raised: "run unresolved_bin_env [''--fix''] sample_options (0::nat)
       = ([], Threw (SystemError ''MODULE_NOT_FOUND''))"
    by simp
  from b ok s f m r raised show ?thesis by simp
qed

text \<open>
  The claim as written fails where the package of the binary cannot be resolved: no
  \<open>biome.json\<close>, no flag, and \<open>resolveBin\<close> raises. The call raises and the callback
  is neither called nor handed to the spawn collaborator.
\<close>

theorem run_unresolved_binary_counterexample:
  "run unresolved_bin_env [''--fix''] sample_options (0::nat)
     = ([], Threw (SystemError ''MODULE_NOT_FOUND''))
   \<and> worker unresolved_bin_env [''--fix''] sample_options (0::nat)
     = ([], Threw (SystemError ''MODULE_NOT_FOUND''))
   \<and> call_count (fst (run unresolved_bin_env [''--fix''] sample_options (0::nat)))
       + spawn_count (fst (run unresolved_bin_env [''--fix''] sample_options (0::nat))) = 0"
  by (simp add: run_def worker_def isWindows_def w_isWindows_def detectMode_def w_detectMode_def
      resolveBiomeBin_def w_resolveBiomeBin_def unresolved_bin_env_def sample_env_def
      sample_getopts_def sample_options_def call_count_def spawn_count_def)

text \<open>
  C9. \<open>worker\<close> of the second source file and \<open>run\<close> of \<open>command.ts\<close> have the same
  result on every environment, argument list, options and callback: the same effects
  in the same order (console lines, the spawn call with its command, arguments and
  options, the callback) and the same way of ending; so have the functions they call.
\<close>

theorem run_worker_equivalent:
  "worker env args options callback = run env args options callback
   \<and> w_detectMode env cwd = detectMode env cwd
   \<and> w_resolveBiomeBin env = resolveBiomeBin env
   \<and> w_resolveDefaultConfig env = resolveDefaultConfig env
   \<and> w_isWindows env = isWindows env"
  by (simp add: worker_eq detectMode_eq w_resolveBiomeBin_eq w_resolveDefaultConfig_eq
      w_isWindows_eq)

end
